theory Spec2Isabelle
  imports Main "HOL-Library.Word" "HOL-Library.Sublist"
begin

section \<open>The multi-session server front end (src/server/multiserver.cpp)\<close>

text \<open>
  The class \<open>MultiServer\<close> owns the listening socket, accepts connections, checks
  the ban list, hands clients to the session server and runs the start/stop life cycle.
  The embedding keeps the class's member names. Every member function becomes a function
  from the object's state to an outcome and the list of effects it had on its
  collaborators, in the order the source performs them.
\<close>

subsection \<open>Data\<close>

text \<open>The enum \<open>MultiServer::State\<close> held in \<open>m_state\<close>.\<close>

datatype State = NOT_STARTED | RUNNING | STOPPING | STOPPED

text \<open>A host address in its printed form, an accepted socket and the client wrapping it.\<close>

type_synonym address = string

datatype socket = Socket (socket_id: nat) (peerAddress: address)

datatype client = Client socket

text \<open>
  The object behind \<open>m_server\<close>: a plain \<open>QTcpServer\<close> or an \<open>SslServer\<close> built from
  a certificate file and a key file, whether it listens, and its queue of pending
  connections.
\<close>

datatype server_kind = TcpServer | SslServer string string

record QTcpServer =
  kind :: server_kind
  isListening :: bool
  pendingConnections :: "socket list"

text \<open>The members of \<open>MultiServer\<close>. The session server's state has the abstract type \<open>'r\<close>.\<close>

record 'r MultiServer =
  m_sessions :: 'r
  m_server :: "QTcpServer option"
  m_state :: State
  m_autoStop :: bool
  m_sslCertFile :: string
  m_sslKeyFile :: string

text \<open>The date and time \<open>QDateTime::currentDateTime()\<close> returns, by its fields.\<close>

record QDateTime =
  dt_year :: nat
  dt_month :: nat
  dt_day :: nat
  dt_hour :: nat
  dt_minute :: nat
  dt_second :: nat

text \<open>
  The collaborators the source calls and whose code is outside this file: the session
  server (\<open>totalUsers\<close>, \<open>sessionCount\<close>, \<open>stopAll\<close>, \<open>addClient\<close> and the setters the
  class forwards), the configuration (\<open>isAddressBanned\<close>, the recording path), the
  certificate check of \<open>SslServer\<close>, the operating system's answer to \<open>listen\<close> (\<open>None\<close>
  when it succeeds, otherwise the server's \<open>errorString\<close>) and to
  \<open>setSocketDescriptor\<close>, the environment variable \<open>HOME\<close>, the file system
  (\<open>QFileInfo::isDir\<close>, \<open>QFileInfo::absoluteFilePath\<close>), the clock, and the helper
  \<open>sessionIdString\<close>. They are parameters of the model.
\<close>

record 'r env =
  totalUsers :: "'r \<Rightarrow> int"
  sessionCount :: "'r \<Rightarrow> int"
  stopAll :: "'r \<Rightarrow> 'r"
  addClient :: "client \<Rightarrow> 'r \<Rightarrow> 'r"
  setMustSecure_reg :: "bool \<Rightarrow> 'r \<Rightarrow> 'r"
  isAddressBanned :: "address \<Rightarrow> bool"
  recordingPath :: string
  isValidCert :: "string \<Rightarrow> string \<Rightarrow> bool"
  listen :: "address \<Rightarrow> 16 word \<Rightarrow> string option"
  setSocketDescriptor :: "int \<Rightarrow> bool"
  HOME :: string
  isDir :: "string \<Rightarrow> bool"
  absoluteFilePath :: "string \<Rightarrow> string"
  currentDateTime :: QDateTime
  sessionIdString :: "int \<Rightarrow> string"

text \<open>
  What a member function does to the outside, and each assignment to \<open>m_state\<close>, in
  program order. \<open>Log\<close> carries the pieces streamed into the logger.
\<close>

datatype level = Info | Error

datatype effect =
    SetState State
  | Log level "string list"
  | NewServer server_kind
  | ConnectNewConnection
  | DeleteServer
  | ServerClose
  | StopAll
  | AddClient client
  | DisconnectKick client string
  | NotifyStatus string
  | ServerStopped
  | SetRecordingFile int string

text \<open>
  A call either returns or ends the process: a failed \<open>Q_ASSERT\<close> aborts (the debug
  build's behaviour, which is what the assertion states), and a member call through a
  null \<open>m_server\<close> or a null socket is a crash. The effects up to that point are kept.
\<close>

datatype error = AssertionFailed | NullPointer

datatype 'a outcome = Done 'a | Crash error

type_synonym 'a res = "'a outcome \<times> effect list"

definition ret :: "'a \<Rightarrow> 'a res" where
  "ret x = (Done x, [])"

definition say :: "effect \<Rightarrow> 'a \<Rightarrow> 'a res" where
  "say e x = (Done x, [e])"

definition crash :: "error \<Rightarrow> 'a res" where
  "crash e = (Crash e, [])"

definition andThen :: "'a res \<Rightarrow> ('a \<Rightarrow> 'b res) \<Rightarrow> 'b res" where
  "andThen m f =
     (case m of
        (Crash e, t) \<Rightarrow> (Crash e, t)
      | (Done x, t) \<Rightarrow> (case f x of (y, t') \<Rightarrow> (y, t @ t')))"

subsection \<open>Numbers and strings\<close>

text \<open>Decimal rendering, as \<open>QString::arg(int)\<close> and the logger do it.\<close>

definition digit_char :: "nat \<Rightarrow> char" where
  "digit_char d = ''0123456789'' ! d"

fun show_nat :: "nat \<Rightarrow> string" where
  "show_nat n = (if n < 10 then [digit_char n] else show_nat (n div 10) @ [digit_char (n mod 10)])"

declare show_nat.simps [simp del]

definition show_int :: "int \<Rightarrow> string" where
  "show_int i = (if i < 0 then CHR ''-'' # show_nat (nat (- i)) else show_nat (nat i))"

text \<open>A field of a date format: the number padded with zeros to the format's width.\<close>

definition zero_pad :: "nat \<Rightarrow> nat \<Rightarrow> string" where
  "zero_pad w n = replicate (w - length (show_nat n)) CHR ''0'' @ show_nat n"

text \<open>\<open>now.toString("yyyy-MM-dd")\<close> and \<open>now.toString("HH.mm.ss")\<close>.\<close>

definition toString_date :: "QDateTime \<Rightarrow> string" where
  "toString_date now =
     zero_pad 4 (dt_year now) @ ''-'' @ zero_pad 2 (dt_month now) @ ''-'' @ zero_pad 2 (dt_day now)"

definition toString_time :: "QDateTime \<Rightarrow> string" where
  "toString_time now =
     zero_pad 2 (dt_hour now) @ ''.'' @ zero_pad 2 (dt_minute now) @ ''.'' @ zero_pad 2 (dt_second now)"

text \<open>
  \<open>QString::replace(old, new)\<close>: every occurrence of \<open>old\<close>, found from the left
  and not overlapping, becomes \<open>new\<close>; the inserted text is not searched again. With an
  empty \<open>old\<close>, \<open>new\<close> is inserted before each character and at the end.
\<close>

function replace_all :: "string \<Rightarrow> string \<Rightarrow> string \<Rightarrow> string" where
  "replace_all old new [] = (if old = [] then new else [])"
| "replace_all old new (c # cs) =
     (if old = [] then new @ c # replace_all old new cs
      else if prefix old (c # cs)
        then new @ replace_all old new (drop (length old) (c # cs))
      else c # replace_all old new cs)"
  by pat_completeness auto
termination
  by (relation "measure (\<lambda>(old, new, s). length s)") auto

text \<open>\<open>QFileInfo(QDir(dir), name)\<close>: the name inside the directory.\<close>

definition dirFilePath :: "string \<Rightarrow> string \<Rightarrow> string" where
  "dirFilePath dir name =
     (if dir \<noteq> [] \<and> last dir = CHR ''/'' then dir @ name else dir @ ''/'' @ name)"

subsection \<open>The member functions\<close>

text \<open>The constructor: no listener, \<open>NOT_STARTED\<close>, auto-stop off, no TLS files.\<close>

definition MultiServer_new :: "'r \<Rightarrow> 'r MultiServer" where
  "MultiServer_new reg =
     \<lparr>m_sessions = reg, m_server = None, m_state = NOT_STARTED, m_autoStop = False,
      m_sslCertFile = [], m_sslKeyFile = []\<rparr>"

definition setMustSecure :: "'r env \<Rightarrow> bool \<Rightarrow> 'r MultiServer \<Rightarrow> 'r MultiServer res" where
  "setMustSecure env secure s = ret (s\<lparr>m_sessions := setMustSecure_reg env secure (m_sessions s)\<rparr>)"

definition setAutoStop :: "bool \<Rightarrow> 'r MultiServer \<Rightarrow> 'r MultiServer res" where
  "setAutoStop autostop s = ret (s\<lparr>m_autoStop := autostop\<rparr>)"

definition set_state :: "State \<Rightarrow> 'r MultiServer \<Rightarrow> 'r MultiServer res" where
  "set_state v s = (Done (s\<lparr>m_state := v\<rparr>), [SetState v])"

text \<open>
  \<open>createServer\<close>: with both TLS files set, an \<open>SslServer\<close> is built and kept only if its
  certificate is valid; otherwise a plain \<open>QTcpServer\<close>. On success the new server's
  \<open>newConnection\<close> signal is connected.
\<close>

definition createServer :: "'r env \<Rightarrow> 'r MultiServer \<Rightarrow> (bool \<times> 'r MultiServer) res" where
  "createServer env s =
     (if m_sslCertFile s \<noteq> [] \<and> m_sslKeyFile s \<noteq> [] then
        andThen (say (NewServer (SslServer (m_sslCertFile s) (m_sslKeyFile s))) s) (\<lambda>s.
          if \<not> isValidCert env (m_sslCertFile s) (m_sslKeyFile s) then ret (False, s)
          else say ConnectNewConnection
                 (True, s\<lparr>m_server := Some \<lparr>kind = SslServer (m_sslCertFile s) (m_sslKeyFile s),
                                             isListening = False, pendingConnections = []\<rparr>\<rparr>))
      else
        andThen (say (NewServer TcpServer) s) (\<lambda>s.
          say ConnectNewConnection
            (True, s\<lparr>m_server := Some \<lparr>kind = TcpServer, isListening = False,
                                        pendingConnections = []\<rparr>\<rparr>)))"

text \<open>\<open>start\<close>: assert, set \<open>RUNNING\<close>, create the server, listen; undo on a failed listen.\<close>

definition start :: "'r env \<Rightarrow> 16 word \<Rightarrow> address \<Rightarrow> 'r MultiServer \<Rightarrow> (bool \<times> 'r MultiServer) res" where
  "start env port addr s =
     (if m_state s \<noteq> NOT_STARTED then crash AssertionFailed
      else
        andThen (set_state RUNNING s) (\<lambda>s.
        andThen (createServer env s) (\<lambda>(created, s).
          if \<not> created then ret (False, s)
          else
            (case m_server s of
               None \<Rightarrow> crash NullPointer
             | Some srv \<Rightarrow>
                 (case listen env addr port of
                    Some errorString \<Rightarrow>
                      andThen (say (Log Error [errorString]) s) (\<lambda>s.
                      andThen (say DeleteServer (s\<lparr>m_server := None\<rparr>)) (\<lambda>s.
                      andThen (set_state NOT_STARTED s) (\<lambda>s.
                      ret (False, s))))
                  | None \<Rightarrow>
                      andThen (say (Log Info [''Started listening on port'', show_nat (unat port),
                                              ''at address'', addr])
                                 (s\<lparr>m_server := Some (srv\<lparr>isListening := True\<rparr>)\<rparr>)) (\<lambda>s.
                      ret (True, s)))))))"

text \<open>\<open>startFd\<close>: the same with an inherited socket descriptor.\<close>

definition startFd :: "'r env \<Rightarrow> int \<Rightarrow> 'r MultiServer \<Rightarrow> (bool \<times> 'r MultiServer) res" where
  "startFd env fd s =
     (if m_state s \<noteq> NOT_STARTED then crash AssertionFailed
      else
        andThen (set_state RUNNING s) (\<lambda>s.
        andThen (createServer env s) (\<lambda>(created, s).
          if \<not> created then ret (False, s)
          else
            (case m_server s of
               None \<Rightarrow> crash NullPointer
             | Some srv \<Rightarrow>
                 if \<not> setSocketDescriptor env fd then
                   andThen (say (Log Error [''Couldn't set server socket descriptor!'']) s) (\<lambda>s.
                   andThen (say DeleteServer (s\<lparr>m_server := None\<rparr>)) (\<lambda>s.
                   andThen (set_state NOT_STARTED s) (\<lambda>s.
                   ret (False, s))))
                 else
                   andThen (say (Log Info [''Started listening on passed socket''])
                              (s\<lparr>m_server := Some (srv\<lparr>isListening := True\<rparr>)\<rparr>)) (\<lambda>s.
                   ret (True, s))))))"

text \<open>
  \<open>assignRecording\<close>: nothing for an empty pattern; otherwise the home directory is
  put in for a leading \<open>~\<close> of \<open>~/\<close>, a directory gets the default pattern, the three
  placeholders are replaced in the order \<open>%d\<close>, \<open>%t\<close>, \<open>%i\<close>, and the session is given
  the absolute path.
\<close>

definition assignRecording :: "'r env \<Rightarrow> int \<Rightarrow> 'r MultiServer \<Rightarrow> 'r MultiServer res" where
  "assignRecording env session_id s =
     (let filename = recordingPath env in
      if filename = [] then ret s
      else
        let filename = (if prefix ''~/'' filename then HOME env @ drop 1 filename else filename);
            filename = (if isDir env filename
                        then absoluteFilePath env (dirFilePath filename ''%d %t session %i.dprec'')
                        else filename);
            now = currentDateTime env;
            filename = replace_all ''%d'' (toString_date now) filename;
            filename = replace_all ''%t'' (toString_time now) filename;
            filename = replace_all ''%i'' (sessionIdString env session_id) filename
        in say (SetRecordingFile session_id (absoluteFilePath env filename)) s)"

text \<open>\<open>printStatusUpdate\<close>: the counts, formatted, go to the init system.\<close>

definition status_text :: "'r env \<Rightarrow> 'r \<Rightarrow> string" where
  "status_text env reg =
     show_int (totalUsers env reg) @ '' users and '' @ show_int (sessionCount env reg) @ '' sessions''"

definition printStatusUpdate :: "'r env \<Rightarrow> 'r MultiServer \<Rightarrow> 'r MultiServer res" where
  "printStatusUpdate env s = say (NotifyStatus (status_text env (m_sessions s))) s"

text \<open>
  \<open>newClient\<close>: take the next pending connection (null when there is none), wrap it,
  kick it if its address is banned, otherwise hand it to the session server and print
  the status.
\<close>

definition newClient :: "'r env \<Rightarrow> 'r MultiServer \<Rightarrow> 'r MultiServer res" where
  "newClient env s =
     (case m_server s of
        None \<Rightarrow> crash NullPointer
      | Some srv \<Rightarrow>
          (case pendingConnections srv of
             [] \<Rightarrow> crash NullPointer
           | sock # rest \<Rightarrow>
               andThen (say (Log Info [''Accepted new client from address'', peerAddress sock])
                          (s\<lparr>m_server := Some (srv\<lparr>pendingConnections := rest\<rparr>)\<rparr>)) (\<lambda>s.
                 if isAddressBanned env (peerAddress sock) then
                   andThen (say (Log Info [''Kicking banned client from address'', peerAddress sock,
                                           ''straight away'']) s) (\<lambda>s.
                   say (DisconnectKick (Client sock) ''BANNED'') s)
                 else
                   andThen (say (AddClient (Client sock))
                              (s\<lparr>m_sessions := addClient env (Client sock) (m_sessions s)\<rparr>)) (\<lambda>s.
                   printStatusUpdate env s))))"

text \<open>\<open>m_server->close()\<close> and \<open>m_sessions->stopAll()\<close> as called from \<open>stop\<close>.\<close>

definition server_close :: "'r MultiServer \<Rightarrow> 'r MultiServer res" where
  "server_close s =
     (case m_server s of
        None \<Rightarrow> crash NullPointer
      | Some srv \<Rightarrow>
          say ServerClose (s\<lparr>m_server := Some (srv\<lparr>isListening := False, pendingConnections := []\<rparr>)\<rparr>))"

definition sessions_stopAll :: "'r env \<Rightarrow> 'r MultiServer \<Rightarrow> 'r MultiServer res" where
  "sessions_stopAll env s = say StopAll (s\<lparr>m_sessions := stopAll env (m_sessions s)\<rparr>)"

text \<open>
  \<open>stop\<close>: a running server goes to \<open>STOPPING\<close>, closes its listener and tells the
  session server to disconnect everybody; a stopping server with no user left goes to
  \<open>STOPPED\<close> and emits \<open>serverStopped\<close>. The second test reads the state the first
  block left.
\<close>

definition stop :: "'r env \<Rightarrow> 'r MultiServer \<Rightarrow> 'r MultiServer res" where
  "stop env s =
     andThen
       (if m_state s = RUNNING then
          andThen (say (Log Info [''Stopping server and kicking out'',
                                  show_int (totalUsers env (m_sessions s)), ''users...'']) s) (\<lambda>s.
          andThen (set_state STOPPING s) (\<lambda>s.
          andThen (server_close s) (\<lambda>s.
          sessions_stopAll env s)))
        else ret s)
       (\<lambda>s.
          if m_state s = STOPPING then
            if totalUsers env (m_sessions s) = 0 then
              andThen (set_state STOPPED s) (\<lambda>s.
              andThen (say (Log Info [''Server stopped.'']) s) (\<lambda>s.
              say ServerStopped s))
            else ret s
          else ret s)"

text \<open>\<open>tryAutoStop\<close>: stop a running, vacant server when auto-stop is on.\<close>

definition tryAutoStop :: "'r env \<Rightarrow> 'r MultiServer \<Rightarrow> 'r MultiServer res" where
  "tryAutoStop env s =
     (if m_state s = RUNNING \<and> m_autoStop s \<and> sessionCount env (m_sessions s) = 0
         \<and> totalUsers env (m_sessions s) = 0
      then andThen (say (Log Info [''Autostopping due to lack of sessions'']) s) (stop env)
      else ret s)"

subsection \<open>The signal connections made by the constructor\<close>

definition on_sessionCreated :: "'r env \<Rightarrow> int \<Rightarrow> 'r MultiServer \<Rightarrow> 'r MultiServer res" where
  "on_sessionCreated env session_id s = assignRecording env session_id s"

definition on_sessionEnded :: "'r env \<Rightarrow> 'r MultiServer \<Rightarrow> 'r MultiServer res" where
  "on_sessionEnded env s = tryAutoStop env s"

definition on_userLoggedIn :: "'r env \<Rightarrow> 'r MultiServer \<Rightarrow> 'r MultiServer res" where
  "on_userLoggedIn env s = printStatusUpdate env s"

definition on_userDisconnected :: "'r env \<Rightarrow> 'r MultiServer \<Rightarrow> 'r MultiServer res" where
  "on_userDisconnected env s =
     andThen (printStatusUpdate env s) (\<lambda>s.
       if m_state s = STOPPING then stop env s else tryAutoStop env s)"

subsection \<open>The life cycle as a sequence of events\<close>

text \<open>
  Everything runs on one event loop, one event after the other: calls of the public
  member functions, a connection arriving at the listener, the four signals of the
  session server, and the session server changing on its own between two events
  (\<open>RegistryChanged\<close> gives its new state). \<open>newConnection\<close> is a signal of the server
  object, so it is delivered only while there is one and it listens. \<open>stopAll\<close> returns
  the session server as the call leaves it; the disconnections it starts arrive
  afterwards, as \<open>userDisconnected\<close> events of their own.
\<close>

datatype 'r event =
    CallStart "16 word" address
  | CallStartFd int
  | CallStop
  | CallSetAutoStop bool
  | CallSetMustSecure bool
  | NewConnection socket
  | SessionCreated int
  | SessionEnded
  | UserLoggedIn
  | UserDisconnected
  | RegistryChanged 'r

fun dispatch :: "'r env \<Rightarrow> 'r event \<Rightarrow> 'r MultiServer \<Rightarrow> 'r MultiServer res" where
  "dispatch env (CallStart port addr) s = andThen (start env port addr s) (\<lambda>(ok, s). ret s)"
| "dispatch env (CallStartFd fd) s = andThen (startFd env fd s) (\<lambda>(ok, s). ret s)"
| "dispatch env CallStop s = stop env s"
| "dispatch env (CallSetAutoStop b) s = setAutoStop b s"
| "dispatch env (CallSetMustSecure b) s = setMustSecure env b s"
| "dispatch env (NewConnection sock) s =
     (case m_server s of
        None \<Rightarrow> ret s
      | Some srv \<Rightarrow>
          if isListening srv
          then newClient env (s\<lparr>m_server := Some (srv\<lparr>pendingConnections := pendingConnections srv @ [sock]\<rparr>)\<rparr>)
          else ret s)"
| "dispatch env (SessionCreated session_id) s = on_sessionCreated env session_id s"
| "dispatch env SessionEnded s = on_sessionEnded env s"
| "dispatch env UserLoggedIn s = on_userLoggedIn env s"
| "dispatch env UserDisconnected s = on_userDisconnected env s"
| "dispatch env (RegistryChanged reg) s = ret (s\<lparr>m_sessions := reg\<rparr>)"

text \<open>
  A run: the events in delivery order, each with the collaborators as they answer at that
  moment. A crash ends the run.
\<close>

fun run :: "('r env \<times> 'r event) list \<Rightarrow> 'r MultiServer \<Rightarrow> 'r MultiServer res" where
  "run [] s = ret s"
| "run ((env, ev) # rest) s = andThen (dispatch env ev s) (run rest)"

text \<open>
  What is read off a trace: how often \<open>serverStopped\<close> was emitted, and the status
  texts sent to the init system.
\<close>

definition emissions :: "effect list \<Rightarrow> nat" where
  "emissions t = count_list t ServerStopped"

fun reports :: "effect list \<Rightarrow> string list" where
  "reports [] = []"
| "reports (NotifyStatus msg # t) = msg # reports t"
| "reports (e # t) = reports t"

text \<open>The order of the states.\<close>

fun rank :: "State \<Rightarrow> nat" where
  "rank NOT_STARTED = 0"
| "rank RUNNING = 1"
| "rank STOPPING = 2"
| "rank STOPPED = 3"

text \<open>
  The bookkeeping behind the life-cycle proofs: a call that returns has not moved the
  state backwards and has emitted \<open>serverStopped\<close> exactly when it entered \<open>STOPPED\<close>; a
  call that crashes has not emitted it a second time.
\<close>

definition stopped_flag :: "'r MultiServer \<Rightarrow> nat" where
  "stopped_flag s = (if m_state s = STOPPED then 1 else 0)"

definition lifecycle_ok :: "'r MultiServer \<Rightarrow> 'r MultiServer res \<Rightarrow> bool" where
  "lifecycle_ok s r =
     (case fst r of
        Done s' \<Rightarrow> rank (m_state s) \<le> rank (m_state s')
                    \<and> emissions (snd r) + stopped_flag s = stopped_flag s'
      | Crash e \<Rightarrow> emissions (snd r) + stopped_flag s \<le> 1)"

subsection \<open>Concrete collaborators for running the model\<close>

text \<open>
  A session server reduced to its two counts (users, sessions) whose \<open>stopAll\<close> only
  starts the disconnections, a ban list of one address, a port that is taken, a
  certificate that does not validate, and the clock and home directory of the spec's
  recording scenario.
\<close>

definition test_env :: "(int \<times> int) env" where
  "test_env =
     \<lparr>totalUsers = fst, sessionCount = snd, stopAll = (\<lambda>r. r),
      addClient = (\<lambda>c r. (fst r + 1, snd r)), setMustSecure_reg = (\<lambda>b r. r),
      isAddressBanned = (\<lambda>a. a = ''10.0.0.66''),
      recordingPath = ''~/rec/%d %t session %i.dprec'',
      isValidCert = (\<lambda>c k. False),
      listen = (\<lambda>a p. Some ''The bound address is already in use''),
      setSocketDescriptor = (\<lambda>fd. False),
      HOME = ''/home/u'', isDir = (\<lambda>p. False), absoluteFilePath = (\<lambda>p. p),
      currentDateTime = \<lparr>dt_year = 2024, dt_month = 3, dt_day = 5,
                         dt_hour = 14, dt_minute = 7, dt_second = 2\<rparr>,
      sessionIdString = show_int\<rparr>"

text \<open>A plain listener with no pending connection, and servers in each state around it.\<close>

definition plain_listener :: QTcpServer where
  "plain_listener = \<lparr>kind = TcpServer, isListening = True, pendingConnections = []\<rparr>"

definition running_server :: "int \<times> int \<Rightarrow> (int \<times> int) MultiServer" where
  "running_server reg = (MultiServer_new reg)\<lparr>m_server := Some plain_listener, m_state := RUNNING\<rparr>"

definition tls_server :: "(int \<times> int) MultiServer" where
  "tls_server = (MultiServer_new (0, 0))\<lparr>m_sslCertFile := ''cert.pem'', m_sslKeyFile := ''key.pem''\<rparr>"

definition closed_listener :: QTcpServer where
  "closed_listener = \<lparr>kind = TcpServer, isListening = False, pendingConnections = []\<rparr>"

definition stopping_server :: "int \<times> int \<Rightarrow> (int \<times> int) MultiServer" where
  "stopping_server reg = (MultiServer_new reg)\<lparr>m_server := Some closed_listener, m_state := STOPPING\<rparr>"

definition stopped_server :: "int \<times> int \<Rightarrow> (int \<times> int) MultiServer" where
  "stopped_server reg = (MultiServer_new reg)\<lparr>m_server := Some closed_listener, m_state := STOPPED\<rparr>"

text \<open>The same collaborators with a free port, and a whole life: start, one client, stop, drain.\<close>

definition free_port_env :: "(int \<times> int) env" where
  "free_port_env = test_env\<lparr>listen := (\<lambda>a p. None)\<rparr>"

definition whole_life :: "((int \<times> int) env \<times> (int \<times> int) event) list" where
  "whole_life =
     [(free_port_env, CallStart 27750 ''0.0.0.0''),
      (free_port_env, NewConnection (Socket 1 ''192.168.1.20'')),
      (free_port_env, UserLoggedIn),
      (free_port_env, CallStop),
      (free_port_env, CallStop),
      (free_port_env, RegistryChanged (0, 0)),
      (free_port_env, UserDisconnected),
      (free_port_env, CallStop)]"

section \<open>Properties\<close>

subsection \<open>Sequencing and the shape of each member function's result\<close>

lemma andThen_Done [simp]: "andThen (Done x, t) f = (fst (f x), t @ snd (f x))"
  by (simp add: andThen_def split: prod.splits)

lemma andThen_Crash [simp]: "andThen (Crash e, t) f = (Crash e, t)"
  by (simp add: andThen_def)

lemmas res_defs = ret_def say_def crash_def set_state_def

lemma printStatusUpdate_eq:
  "printStatusUpdate env s = (Done s, [NotifyStatus (status_text env (m_sessions s))])"
  by (simp add: printStatusUpdate_def res_defs)

lemma stop_idle: "m_state s = NOT_STARTED \<or> m_state s = STOPPED \<Longrightarrow> stop env s = (Done s, [])"
  by (auto simp add: stop_def res_defs)

lemma stop_STOPPING:
  "m_state s = STOPPING \<Longrightarrow>
   stop env s =
     (if totalUsers env (m_sessions s) = 0
      then (Done (s\<lparr>m_state := STOPPED\<rparr>),
            [SetState STOPPED, Log Info [''Server stopped.''], ServerStopped])
      else (Done s, []))"
  by (simp add: stop_def res_defs)


lemma stop_RUNNING:
  "m_state s = RUNNING \<Longrightarrow> m_server s = Some srv \<Longrightarrow>
   stop env s =
     (let s1 = s\<lparr>m_state := STOPPING,
                  m_server := Some (srv\<lparr>isListening := False, pendingConnections := []\<rparr>),
                  m_sessions := stopAll env (m_sessions s)\<rparr>;
          t1 = [Log Info [''Stopping server and kicking out'',
                          show_int (totalUsers env (m_sessions s)), ''users...''],
                SetState STOPPING, ServerClose, StopAll]
      in if totalUsers env (stopAll env (m_sessions s)) = 0
         then (Done (s1\<lparr>m_state := STOPPED\<rparr>),
               t1 @ [SetState STOPPED, Log Info [''Server stopped.''], ServerStopped])
         else (Done s1, t1))"
  by (simp add: stop_def res_defs server_close_def sessions_stopAll_def Let_def)

lemma reports_append: "reports (a @ b) = reports a @ reports b"
  by (induction a rule: reports.induct) simp_all

lemma reports_stop: "reports (snd (stop env s)) = []"
  by (cases "m_state s"; cases "m_server s")
     (simp_all add: stop_def res_defs server_close_def sessions_stopAll_def)

lemma reports_tryAutoStop: "reports (snd (tryAutoStop env s)) = []"
  by (simp add: tryAutoStop_def res_defs reports_stop)

subsection \<open>The life-cycle bookkeeping holds for every member function and every run\<close>

lemmas lifecycle_defs = lifecycle_ok_def emissions_def stopped_flag_def

lemma lifecycle_ok_after:
  "lifecycle_ok s (out, t) \<Longrightarrow> ServerStopped \<notin> set p \<Longrightarrow> lifecycle_ok s (out, p @ t)"
  by (cases out) (simp_all add: lifecycle_defs)

lemma stop_lifecycle: "lifecycle_ok s (stop env s)"
  by (cases "m_state s"; cases "m_server s")
     (simp_all add: lifecycle_defs stop_def res_defs server_close_def sessions_stopAll_def)

lemma tryAutoStop_lifecycle: "lifecycle_ok s (tryAutoStop env s)"
proof (cases "m_state s = RUNNING \<and> m_autoStop s \<and> sessionCount env (m_sessions s) = 0
                \<and> totalUsers env (m_sessions s) = 0")
  case True
  let ?p = "[Log Info [''Autostopping due to lack of sessions'']]"
  from True have "tryAutoStop env s = (fst (stop env s), ?p @ snd (stop env s))"
    by (simp add: tryAutoStop_def res_defs)
  then show ?thesis
    using lifecycle_ok_after [of s "fst (stop env s)" "snd (stop env s)" ?p]
      stop_lifecycle [of s env]
    by simp
next
  case False
  then show ?thesis
    by (auto simp add: tryAutoStop_def res_defs lifecycle_defs)
qed

lemma on_userDisconnected_lifecycle: "lifecycle_ok s (on_userDisconnected env s)"
proof -
  let ?p = "[NotifyStatus (status_text env (m_sessions s))]"
  let ?k = "if m_state s = STOPPING then stop env s else tryAutoStop env s"
  have "on_userDisconnected env s = (fst ?k, ?p @ snd ?k)"
    by (simp add: on_userDisconnected_def printStatusUpdate_eq)
  moreover have "lifecycle_ok s (fst ?k, snd ?k)"
    using stop_lifecycle [of s env] tryAutoStop_lifecycle [of s env] by simp
  ultimately show ?thesis
    using lifecycle_ok_after [of s "fst ?k" "snd ?k" ?p] by simp
qed

lemma start_lifecycle: "lifecycle_ok s (andThen (start env port addr s) (\<lambda>(ok, s). ret s))"
  by (cases "m_state s")
     (auto simp add: lifecycle_defs start_def createServer_def res_defs split: option.splits)

lemma startFd_lifecycle: "lifecycle_ok s (andThen (startFd env fd s) (\<lambda>(ok, s). ret s))"
  by (cases "m_state s")
     (auto simp add: lifecycle_defs startFd_def createServer_def res_defs split: option.splits)

lemma newClient_lifecycle: "m_state s0 = m_state s \<Longrightarrow> lifecycle_ok s0 (newClient env s)"
  by (auto simp add: lifecycle_defs newClient_def printStatusUpdate_eq res_defs
           split: option.splits list.splits)

lemma assignRecording_lifecycle: "lifecycle_ok s (assignRecording env i s)"
  by (auto simp add: lifecycle_defs assignRecording_def res_defs Let_def)

lemma dispatch_lifecycle: "lifecycle_ok s (dispatch env ev s)"
proof (cases ev)
  case (NewConnection sock)
  then show ?thesis
    by (auto simp add: newClient_lifecycle split: option.splits)
       (simp_all add: lifecycle_defs res_defs)
qed (simp_all add: stop_lifecycle tryAutoStop_lifecycle on_userDisconnected_lifecycle
       start_lifecycle startFd_lifecycle assignRecording_lifecycle on_sessionCreated_def
       on_sessionEnded_def on_userLoggedIn_def printStatusUpdate_eq setAutoStop_def
       setMustSecure_def,
     simp_all add: lifecycle_defs res_defs)

lemma run_lifecycle: "lifecycle_ok s (run evs s)"
proof (induction evs arbitrary: s)
  case Nil
  then show ?case by (simp add: lifecycle_defs res_defs)
next
  case (Cons a evs)
  obtain env ev where a: "a = (env, ev)" by (cases a)
  show ?case
  proof (cases "fst (dispatch env ev s)")
    case (Done s1)
    then have d: "dispatch env ev s = (Done s1, snd (dispatch env ev s))"
      by (metis prod.collapse)
    have g1: "lifecycle_ok s (dispatch env ev s)" by (rule dispatch_lifecycle)
    have g2: "lifecycle_ok s1 (run evs s1)" by (rule Cons.IH)
    have r: "run (a # evs) s = (fst (run evs s1), snd (dispatch env ev s) @ snd (run evs s1))"
      using a d by (metis andThen_Done run.simps(2))
    show ?thesis
      using g1 g2 Done unfolding r lifecycle_ok_def emissions_def
      by (cases "fst (run evs s1)") auto
  next
    case (Crash e)
    then have d: "dispatch env ev s = (Crash e, snd (dispatch env ev s))"
      by (metis prod.collapse)
    have r: "run (a # evs) s = (Crash e, snd (dispatch env ev s))"
      using a d by (metis andThen_Crash run.simps(2))
    show ?thesis
      using dispatch_lifecycle [of s env ev] Crash unfolding r lifecycle_ok_def by simp
  qed
qed

subsection \<open>Start-up failures\<close>

text \<open>
  C1. The claim: a start whose TLS certificate and key do not validate returns failure
  and leaves the server in \<open>NOT_STARTED\<close>. The code returns failure, but it has already
  set \<open>m_state\<close> to \<open>RUNNING\<close> and the early return of \<open>createServer\<close>'s failure does not
  set it back, as the failed-listen path just below does. Both \<open>start\<close> and \<open>startFd\<close>,
  run on a fresh server with TLS files whose certificate is invalid, return \<open>False\<close> with
  the state \<open>RUNNING\<close> and no server object.
\<close>

theorem start_invalid_certificate_stays_running:
  "start test_env 27750 ''0.0.0.0'' tls_server =
     (Done (False, tls_server\<lparr>m_state := RUNNING\<rparr>),
      [SetState RUNNING, NewServer (SslServer ''cert.pem'' ''key.pem'')])
   \<and> startFd test_env 3 tls_server =
     (Done (False, tls_server\<lparr>m_state := RUNNING\<rparr>),
      [SetState RUNNING, NewServer (SslServer ''cert.pem'' ''key.pem'')])
   \<and> m_state tls_server = NOT_STARTED
   \<and> m_state (tls_server\<lparr>m_state := RUNNING\<rparr>) \<noteq> NOT_STARTED"
  by (simp add: start_def startFd_def createServer_def res_defs tls_server_def test_env_def
        MultiServer_new_def)

text \<open>
  C5. A start from \<open>NOT_STARTED\<close> whose server object is created (no TLS files, or a
  valid certificate) and whose \<open>listen\<close> fails with the server's error string returns
  \<open>False\<close>; the error string is logged at error level, the server object created by this
  call is deleted and \<open>m_server\<close> is null again, and the state is \<open>NOT_STARTED\<close>: the
  object is as before the call, apart from the null \<open>m_server\<close>.
\<close>

theorem start_listen_failure_reverts:
  assumes "m_state s = NOT_STARTED"
    and "m_sslCertFile s = [] \<or> m_sslKeyFile s = []
         \<or> isValidCert env (m_sslCertFile s) (m_sslKeyFile s)"
    and "listen env addr port = Some errorString"
  shows "fst (start env port addr s) = Done (False, s\<lparr>m_server := None\<rparr>)
         \<and> m_state (s\<lparr>m_server := None\<rparr>) = NOT_STARTED
         \<and> m_server (s\<lparr>m_server := None\<rparr>) = None
         \<and> snd (start env port addr s) =
             [SetState RUNNING,
              NewServer (if m_sslCertFile s \<noteq> [] \<and> m_sslKeyFile s \<noteq> []
                         then SslServer (m_sslCertFile s) (m_sslKeyFile s) else TcpServer),
              ConnectNewConnection, Log Error [errorString], DeleteServer, SetState NOT_STARTED]"
  using assms by (auto simp add: start_def createServer_def res_defs)

theorem start_listen_failure_reverts_witness:
  "m_state (MultiServer_new (0, 0)) = NOT_STARTED
   \<and> m_sslCertFile (MultiServer_new (0, 0)) = []
   \<and> listen test_env ''0.0.0.0'' 27750 = Some ''The bound address is already in use''
   \<and> fst (start test_env 27750 ''0.0.0.0'' (MultiServer_new (0, 0)))
       = Done (False, MultiServer_new (0, 0))
   \<and> snd (start test_env 27750 ''0.0.0.0'' (MultiServer_new (0, 0))) =
       [SetState RUNNING, NewServer TcpServer, ConnectNewConnection,
        Log Error [''The bound address is already in use''], DeleteServer, SetState NOT_STARTED]"
  using start_listen_failure_reverts
          [of "MultiServer_new (0, 0)" test_env "''0.0.0.0''" 27750
              "''The bound address is already in use''"]
  by (simp add: MultiServer_new_def test_env_def)

subsection \<open>Admission\<close>

text \<open>
  C2. When the connection taken from the listener comes from a banned address,
  \<open>newClient\<close> returns having logged the connection and the kick and having called
  \<open>disconnectKick("BANNED")\<close> on that client, and nothing else: \<open>addClient\<close> is not
  called for any client and the session server is untouched.
\<close>

theorem banned_client_never_added:
  assumes "m_server s = Some srv"
    and "pendingConnections srv = sock # rest"
    and "isAddressBanned env (peerAddress sock)"
  shows "fst (newClient env s) = Done (s\<lparr>m_server := Some (srv\<lparr>pendingConnections := rest\<rparr>)\<rparr>)
         \<and> snd (newClient env s) =
             [Log Info [''Accepted new client from address'', peerAddress sock],
              Log Info [''Kicking banned client from address'', peerAddress sock, ''straight away''],
              DisconnectKick (Client sock) ''BANNED'']
         \<and> (\<forall>c. AddClient c \<notin> set (snd (newClient env s)))"
  using assms by (simp add: newClient_def res_defs)

theorem banned_client_never_added_witness:
  "m_server ((running_server (0, 0))\<lparr>m_server :=
       Some (plain_listener\<lparr>pendingConnections := [Socket 1 ''10.0.0.66'']\<rparr>)\<rparr>)
     = Some (plain_listener\<lparr>pendingConnections := [Socket 1 ''10.0.0.66'']\<rparr>)
   \<and> pendingConnections (plain_listener\<lparr>pendingConnections := [Socket 1 ''10.0.0.66'']\<rparr>)
     = [Socket 1 ''10.0.0.66'']
   \<and> isAddressBanned test_env (peerAddress (Socket 1 ''10.0.0.66''))
   \<and> fst (newClient test_env ((running_server (0, 0))\<lparr>m_server :=
       Some (plain_listener\<lparr>pendingConnections := [Socket 1 ''10.0.0.66'']\<rparr>)\<rparr>))
     = Done (running_server (0, 0))
   \<and> snd (newClient test_env ((running_server (0, 0))\<lparr>m_server :=
       Some (plain_listener\<lparr>pendingConnections := [Socket 1 ''10.0.0.66'']\<rparr>)\<rparr>))
     = [Log Info [''Accepted new client from address'', ''10.0.0.66''],
        Log Info [''Kicking banned client from address'', ''10.0.0.66'', ''straight away''],
        DisconnectKick (Client (Socket 1 ''10.0.0.66'')) ''BANNED'']"
  using banned_client_never_added
          [of "(running_server (0, 0))\<lparr>m_server :=
                 Some (plain_listener\<lparr>pendingConnections := [Socket 1 ''10.0.0.66'']\<rparr>)\<rparr>"
              "plain_listener\<lparr>pendingConnections := [Socket 1 ''10.0.0.66'']\<rparr>"
              "Socket 1 ''10.0.0.66''" "[]" test_env]
  by (simp add: running_server_def plain_listener_def MultiServer_new_def test_env_def)

subsection \<open>Stopping\<close>

text \<open>
  C10. \<open>stop\<close> on a server that is \<open>NOT_STARTED\<close> returns the object unchanged and has
  no effect at all: no state change, no close of a listener, no \<open>stopAll\<close>, no
  \<open>serverStopped\<close>.
\<close>

theorem stop_before_start_is_noop:
  assumes "m_state s = NOT_STARTED"
  shows "stop env s = (Done s, [])"
  using assms by (simp add: stop_def res_defs)

theorem stop_before_start_is_noop_witness:
  "m_state (MultiServer_new (0, 0)) = NOT_STARTED
   \<and> stop test_env (MultiServer_new (0, 0)) = (Done (MultiServer_new (0, 0)), [])"
  using stop_before_start_is_noop [of "MultiServer_new (0, 0)" test_env]
  by (simp add: MultiServer_new_def)

text \<open>
  C9. The claim: \<open>stop\<close> on a server whose state is \<open>RUNNING\<close> and that has no user
  reaches \<open>STOPPED\<close> and emits \<open>serverStopped\<close> within the call. The code breaks it in
  the state the failed TLS start of C1 leaves behind: \<open>start\<close> with an invalid certificate
  returns \<open>False\<close> with the state \<open>RUNNING\<close> and \<open>m_server\<close> still null; there is no
  user; \<open>stop\<close> then sets \<open>STOPPING\<close> and calls \<open>close()\<close> through the null pointer. It
  never reaches \<open>STOPPED\<close> and \<open>serverStopped\<close> is not emitted. The same holds for the two
  calls delivered as events.
\<close>

theorem stop_after_failed_tls_start_crashes:
  "fst (start test_env 27750 ''0.0.0.0'' tls_server) = Done (False, tls_server\<lparr>m_state := RUNNING\<rparr>)
   \<and> m_state (tls_server\<lparr>m_state := RUNNING\<rparr>) = RUNNING
   \<and> m_server (tls_server\<lparr>m_state := RUNNING\<rparr>) = None
   \<and> totalUsers test_env (m_sessions (tls_server\<lparr>m_state := RUNNING\<rparr>)) = 0
   \<and> stop test_env (tls_server\<lparr>m_state := RUNNING\<rparr>) =
       (Crash NullPointer,
        [Log Info [''Stopping server and kicking out'', ''0'', ''users...''], SetState STOPPING])
   \<and> emissions (snd (stop test_env (tls_server\<lparr>m_state := RUNNING\<rparr>))) = 0
   \<and> run [(test_env, CallStart 27750 ''0.0.0.0''), (test_env, CallStop)] tls_server =
       (Crash NullPointer,
        [SetState RUNNING, NewServer (SslServer ''cert.pem'' ''key.pem''),
         Log Info [''Stopping server and kicking out'', ''0'', ''users...''], SetState STOPPING])"
  by (simp add: start_def createServer_def stop_def server_close_def res_defs tls_server_def
        test_env_def MultiServer_new_def emissions_def show_int_def show_nat.simps
        digit_char_def)

text \<open>
  What \<open>stop\<close> does when the listener is there: on a \<open>RUNNING\<close> server with a server
  object that has no user, and still has none when \<open>stopAll\<close> returns, it sets
  \<open>STOPPING\<close>, closes the listener, calls \<open>stopAll\<close>, sets \<open>STOPPED\<close> and emits
  \<open>serverStopped\<close>, in this order, within the one call.
\<close>

lemma stop_with_listener_completes_at_once:
  assumes "m_state s = RUNNING"
    and "m_server s = Some srv"
    and "totalUsers env (m_sessions s) = 0"
    and "totalUsers env (stopAll env (m_sessions s)) = 0"
  shows "fst (stop env s) =
           Done (s\<lparr>m_state := STOPPED,
                   m_server := Some (srv\<lparr>isListening := False, pendingConnections := []\<rparr>),
                   m_sessions := stopAll env (m_sessions s)\<rparr>)
         \<and> snd (stop env s) =
             [Log Info [''Stopping server and kicking out'', ''0'', ''users...''],
              SetState STOPPING, ServerClose, StopAll,
              SetState STOPPED, Log Info [''Server stopped.''], ServerStopped]"
  using assms
  by (simp add: stop_RUNNING show_int_def show_nat.simps digit_char_def)

text \<open>
  C3. \<open>stop\<close> called on a server that is \<open>STOPPING\<close> or \<open>STOPPED\<close> always returns (it
  never crashes), and on a \<open>STOPPED\<close> server it changes nothing and has no effect. Over
  any sequence of events delivered to a server that begins in \<open>NOT_STARTED\<close>, whatever the
  collaborators answer, \<open>serverStopped\<close> is emitted at most once, and when the run ends
  without a crash it has been emitted exactly once if the server is \<open>STOPPED\<close> and not at
  all otherwise.
\<close>

theorem stop_idempotent_one_notification:
  "(m_state s = STOPPING \<or> m_state s = STOPPED \<longrightarrow> (\<exists>s'. fst (stop env s) = Done s'))
   \<and> (m_state s = STOPPED \<longrightarrow> stop env s = (Done s, []))
   \<and> (m_state s0 = NOT_STARTED \<longrightarrow>
        emissions (snd (run evs s0)) \<le> 1
        \<and> (\<forall>s'. fst (run evs s0) = Done s' \<longrightarrow>
              (emissions (snd (run evs s0)) = 1 \<longleftrightarrow> m_state s' = STOPPED)))"
proof -
  have a: "m_state s = STOPPING \<or> m_state s = STOPPED \<longrightarrow> (\<exists>s'. fst (stop env s) = Done s')"
    by (auto simp add: stop_def res_defs)
  have b: "m_state s = STOPPED \<longrightarrow> stop env s = (Done s, [])"
    by (simp add: stop_def res_defs)
  have c: "m_state s0 = NOT_STARTED \<longrightarrow>
        emissions (snd (run evs s0)) \<le> 1
        \<and> (\<forall>s'. fst (run evs s0) = Done s' \<longrightarrow>
              (emissions (snd (run evs s0)) = 1 \<longleftrightarrow> m_state s' = STOPPED))"
    using run_lifecycle [of s0 evs] unfolding lifecycle_ok_def stopped_flag_def
    by (cases "fst (run evs s0)") (auto split: if_splits)
  from a b c show ?thesis by blast
qed

theorem stop_idempotent_one_notification_witness:
  "m_state (stopped_server (0, 0)) = STOPPED
   \<and> stop test_env (stopped_server (0, 0)) = (Done (stopped_server (0, 0)), [])
   \<and> m_state (MultiServer_new (0, 0)) = NOT_STARTED
   \<and> fst (run whole_life (MultiServer_new (0, 0))) = Done (stopped_server (0, 0))
   \<and> emissions (snd (run whole_life (MultiServer_new (0, 0)))) = 1"
  using stop_idempotent_one_notification
          [of "stopped_server (0, 0)" test_env "MultiServer_new (0, 0)" whole_life]
  by (simp add: whole_life_def free_port_env_def test_env_def stopped_server_def
        closed_listener_def MultiServer_new_def start_def createServer_def newClient_def
        printStatusUpdate_eq status_text_def on_userLoggedIn_def on_userDisconnected_def
        stop_def server_close_def sessions_stopAll_def tryAutoStop_def res_defs emissions_def)



subsection \<open>The order of the states\<close>

text \<open>
  C8. Whatever event is delivered in whatever state (so in every reachable one), and
  whatever the collaborators answer, if the call returns then the state it leaves is not
  earlier in the order \<open>NOT_STARTED\<close>, \<open>RUNNING\<close>, \<open>STOPPING\<close>, \<open>STOPPED\<close> than the state it
  found. (Inside a \<open>start\<close> whose listen fails the member is \<open>RUNNING\<close> until it is set
  back; the call begins and ends in \<open>NOT_STARTED\<close>. A \<open>start\<close> in any other state fails
  its assertion and does not return.)
\<close>

theorem state_never_moves_backwards:
  assumes "fst (dispatch env ev s) = Done s'"
  shows "rank (m_state s) \<le> rank (m_state s')"
  using assms dispatch_lifecycle [of s env ev] by (simp add: lifecycle_ok_def)

theorem state_never_moves_backwards_witness:
  "fst (dispatch test_env CallStop (running_server (1, 1))) = Done (stopping_server (1, 1))
   \<and> rank (m_state (running_server (1, 1))) \<le> rank (m_state (stopping_server (1, 1)))"
  using state_never_moves_backwards
          [of test_env CallStop "running_server (1, 1)" "stopping_server (1, 1)"]
  by (simp add: stop_RUNNING [of _ plain_listener] running_server_def stopping_server_def
        plain_listener_def closed_listener_def MultiServer_new_def test_env_def)

subsection \<open>Status reports\<close>

text \<open>
  C6, as the claim states it, fails: the \<open>sessionEnded\<close> signal is connected to
  \<open>tryAutoStop\<close> alone, which sends no status. On a running server with two sessions
  and two users, a session ends (one session is left) and \<open>sessionEnded\<close> is delivered:
  nothing at all happens, so the session count has changed and no status was sent.
\<close>

theorem sessionEnded_sends_no_status:
  "snd (run [(test_env, RegistryChanged (2, 1)), (test_env, SessionEnded)] (running_server (2, 2)))
     = []"
  by (simp add: on_sessionEnded_def tryAutoStop_def res_defs running_server_def
        MultiServer_new_def test_env_def)

text \<open>
  C6, amended. A status is sent once, with the counts of that moment, by every
  acceptance of a connection that is not banned (after \<open>addClient\<close>), by every login
  and by every disconnection (before the stop or auto-stop evaluation, and whether or not
  that evaluation then crashes). The \<open>sessionEnded\<close> signal and the auto-stop evaluation
  itself send none.
\<close>

theorem status_reported_on_user_events:
  "(m_server s = Some srv \<and> pendingConnections srv = sock # rest
      \<and> \<not> isAddressBanned env (peerAddress sock)
      \<longrightarrow> (\<exists>s'. fst (newClient env s) = Done s')
          \<and> reports (snd (newClient env s))
              = [status_text env (addClient env (Client sock) (m_sessions s))]
          \<and> last (snd (newClient env s))
              = NotifyStatus (status_text env (addClient env (Client sock) (m_sessions s))))
   \<and> on_userLoggedIn env s = (Done s, [NotifyStatus (status_text env (m_sessions s))])
   \<and> reports (snd (on_userDisconnected env s)) = [status_text env (m_sessions s)]
   \<and> hd (snd (on_userDisconnected env s)) = NotifyStatus (status_text env (m_sessions s))
   \<and> reports (snd (on_sessionEnded env s)) = []
   \<and> reports (snd (tryAutoStop env s)) = []"
proof -
  have a: "m_server s = Some srv \<and> pendingConnections srv = sock # rest
      \<and> \<not> isAddressBanned env (peerAddress sock)
      \<longrightarrow> (\<exists>s'. fst (newClient env s) = Done s')
          \<and> reports (snd (newClient env s))
              = [status_text env (addClient env (Client sock) (m_sessions s))]
          \<and> last (snd (newClient env s))
              = NotifyStatus (status_text env (addClient env (Client sock) (m_sessions s)))"
    by (simp add: newClient_def printStatusUpdate_eq res_defs)
  have b: "on_userLoggedIn env s = (Done s, [NotifyStatus (status_text env (m_sessions s))])"
    by (simp add: on_userLoggedIn_def printStatusUpdate_eq)
  have c: "reports (snd (on_userDisconnected env s)) = [status_text env (m_sessions s)]"
    by (simp add: on_userDisconnected_def printStatusUpdate_eq reports_stop reports_tryAutoStop)
  have d: "hd (snd (on_userDisconnected env s)) = NotifyStatus (status_text env (m_sessions s))"
    by (simp add: on_userDisconnected_def printStatusUpdate_eq)
  have e: "reports (snd (on_sessionEnded env s)) = []"
    by (simp add: on_sessionEnded_def reports_tryAutoStop)
  have f: "reports (snd (tryAutoStop env s)) = []"
    by (rule reports_tryAutoStop)
  from a b c d e f show ?thesis by blast
qed

theorem status_reported_on_user_events_witness:
  "m_server ((running_server (0, 0))\<lparr>m_server :=
       Some (plain_listener\<lparr>pendingConnections := [Socket 2 ''192.168.1.20'']\<rparr>)\<rparr>)
     = Some (plain_listener\<lparr>pendingConnections := [Socket 2 ''192.168.1.20'']\<rparr>)
   \<and> pendingConnections (plain_listener\<lparr>pendingConnections := [Socket 2 ''192.168.1.20'']\<rparr>)
     = [Socket 2 ''192.168.1.20'']
   \<and> \<not> isAddressBanned test_env (peerAddress (Socket 2 ''192.168.1.20''))
   \<and> fst (newClient test_env ((running_server (0, 0))\<lparr>m_server :=
       Some (plain_listener\<lparr>pendingConnections := [Socket 2 ''192.168.1.20'']\<rparr>)\<rparr>))
     = Done (running_server (1, 0))
   \<and> reports (snd (newClient test_env ((running_server (0, 0))\<lparr>m_server :=
       Some (plain_listener\<lparr>pendingConnections := [Socket 2 ''192.168.1.20'']\<rparr>)\<rparr>)))
     = [''1 users and 0 sessions'']"
  using status_reported_on_user_events
          [of "(running_server (0, 0))\<lparr>m_server :=
                 Some (plain_listener\<lparr>pendingConnections := [Socket 2 ''192.168.1.20'']\<rparr>)\<rparr>"
              "plain_listener\<lparr>pendingConnections := [Socket 2 ''192.168.1.20'']\<rparr>"
              "Socket 2 ''192.168.1.20''" "[]" test_env]
  by (simp add: newClient_def res_defs printStatusUpdate_eq running_server_def
        plain_listener_def MultiServer_new_def test_env_def status_text_def show_int_def
        show_nat.simps digit_char_def)

subsection \<open>The recording path\<close>

text \<open>
  C7. With the pattern \<open>~/rec/%d %t session %i.dprec\<close>, \<open>HOME\<close> = \<open>/home/u\<close>, the clock at
  2024-03-05 14:07:02 and the session 7, \<open>assignRecording\<close> gives the session the file
  \<open>/home/u/rec/2024-03-05 14.07.02 session 7.dprec\<close>. The facts about the collaborators
  the scenario leaves open are hypotheses: the expanded pattern is not an existing
  directory, \<open>sessionIdString\<close> renders the identifier 7 as \<open>7\<close>, and the file system
  returns the resulting path, which is absolute, unchanged.
\<close>

theorem recording_path_scenario_B:
  assumes "recordingPath env = ''~/rec/%d %t session %i.dprec''"
    and "HOME env = ''/home/u''"
    and "currentDateTime env = \<lparr>dt_year = 2024, dt_month = 3, dt_day = 5,
                                 dt_hour = 14, dt_minute = 7, dt_second = 2\<rparr>"
    and "\<not> isDir env ''/home/u/rec/%d %t session %i.dprec''"
    and "sessionIdString env 7 = ''7''"
    and "absoluteFilePath env ''/home/u/rec/2024-03-05 14.07.02 session 7.dprec''
           = ''/home/u/rec/2024-03-05 14.07.02 session 7.dprec''"
  shows "assignRecording env 7 s =
           (Done s, [SetRecordingFile 7 ''/home/u/rec/2024-03-05 14.07.02 session 7.dprec''])"
  using assms
  by (simp add: assignRecording_def res_defs toString_date_def toString_time_def zero_pad_def
        show_nat.simps digit_char_def Let_def)

theorem recording_path_scenario_B_witness:
  "recordingPath test_env = ''~/rec/%d %t session %i.dprec''
   \<and> HOME test_env = ''/home/u''
   \<and> \<not> isDir test_env ''/home/u/rec/%d %t session %i.dprec''
   \<and> sessionIdString test_env 7 = ''7''
   \<and> assignRecording test_env 7 (MultiServer_new (0, 0)) =
       (Done (MultiServer_new (0, 0)),
        [SetRecordingFile 7 ''/home/u/rec/2024-03-05 14.07.02 session 7.dprec''])"
  using recording_path_scenario_B [of test_env "MultiServer_new (0, 0)"]
  by (simp add: test_env_def show_int_def show_nat.simps digit_char_def)

end
